theory Spec2Isabelle
  imports Main "HOL-Library.Word"
begin

unbundle bit_operations_syntax

section \<open>Raw USB devices of karalabe/usb (raw\_enabled.go)\<close>

text \<open>
  A shallow embedding of \<^verbatim>\<open>enumerateRaw\<close>, \<^verbatim>\<open>Close\<close>, \<^verbatim>\<open>Write\<close> and \<^verbatim>\<open>Read\<close>.
  The libusb host stack is the environment: what its C functions answer is data given to
  the model, and the calls a \<^verbatim>\<open>RawDevice\<close> makes into it are recorded in a log.
\<close>

subsection \<open>Descriptors\<close>

type_synonym uint8 = "8 word"
type_synonym uint16 = "16 word"

text \<open>
  The C descriptor tree. Each counted C array (\<^verbatim>\<open>bNumEndpoints\<close>/\<^verbatim>\<open>endpoint\<close>,
  \<^verbatim>\<open>num_altsetting\<close>/\<^verbatim>\<open>altsetting\<close>, \<^verbatim>\<open>bNumInterfaces\<close>/\<^verbatim>\<open>_interface\<close>) is the list the
  Go code builds from it with a slice header: the count is the length of the list.
\<close>

record libusb_endpoint_descriptor =
  bEndpointAddress :: uint8
  bmAttributes :: uint8

record libusb_interface_descriptor =
  endpoint :: "libusb_endpoint_descriptor list"

record libusb_interface =
  altsetting :: "libusb_interface_descriptor list"

record libusb_config_descriptor =
  interface :: "libusb_interface list"

record libusb_device_descriptor =
  idVendor :: uint16
  idProduct :: uint16
  bDeviceClass :: uint8
  bNumConfigurations :: uint8

text \<open>
  A device of the host's list, given by what libusb answers about it: the return code and
  the descriptor of \<^verbatim>\<open>libusb_get_device_descriptor\<close>, the same for
  \<^verbatim>\<open>libusb_get_config_descriptor\<close> at each index, and its port number.
\<close>

record libusb_device =
  libusb_get_device_descriptor :: "int \<times> libusb_device_descriptor"
  libusb_get_config_descriptor :: "nat \<Rightarrow> int \<times> libusb_config_descriptor"
  libusb_get_port_number :: uint8

text \<open>
  The host stack as seen by one enumeration: the return code of \<^verbatim>\<open>libusb_init\<close>, the
  count returned by \<^verbatim>\<open>libusb_get_device_list\<close> and the array it fills.
\<close>

record libusb =
  libusb_init :: int
  libusb_get_device_list :: int
  deviceList :: "libusb_device list"

subsection \<open>Constants of libusb.h\<close>

text \<open>
  Modelled from the spec: the header \<^verbatim>\<open>libusb/libusb/libusb.h\<close> that declares these
  constants is vendored in the repository, outside its Go sources. The
  specification gives the direction bit as 0x80 and the interrupt transfer type as 0x03;
  OUT is the direction bit cleared, and HID is class 3 of the USB standard.
\<close>

definition LIBUSB_ENDPOINT_IN :: uint8 where
  "LIBUSB_ENDPOINT_IN = 0x80"

definition LIBUSB_ENDPOINT_OUT :: uint8 where
  "LIBUSB_ENDPOINT_OUT = 0x00"

definition LIBUSB_TRANSFER_TYPE_INTERRUPT :: uint8 where
  "LIBUSB_TRANSFER_TYPE_INTERRUPT = 3"

definition LIBUSB_CLASS_HID :: uint8 where
  "LIBUSB_CLASS_HID = 3"

subsection \<open>Errors and results\<close>

text \<open>
  \<^verbatim>\<open>rawError(count)\<close> and the three \<^verbatim>\<open>fmt.Errorf\<close> messages of \<^verbatim>\<open>enumerateRaw\<close>, with the
  values they are formatted from.
\<close>

datatype error =
    RawError int
  | InitError int
  | DeviceDescriptorError nat error
  | ConfigDescriptorError nat nat error

record DeviceInfo =
  Path :: string
  VendorID :: uint16
  ProductID :: uint16
  Interface :: nat
  rawDevice :: nat
  rawReader :: "uint8 option"
  rawWriter :: "uint8 option"

subsection \<open>fmt.Sprintf verbs\<close>

definition hex_digit :: "nat \<Rightarrow> char" where
  "hex_digit d = ''0123456789abcdef'' ! d"

function fmt_x :: "nat \<Rightarrow> string" where
  "fmt_x n = (if n < 16 then [hex_digit n] else fmt_x (n div 16) @ [hex_digit (n mod 16)])"
  by pat_completeness auto
termination
  by (relation "measure id") auto

function fmt_d :: "nat \<Rightarrow> string" where
  "fmt_d n = (if n < 10 then [hex_digit n] else fmt_d (n div 10) @ [hex_digit (n mod 10)])"
  by pat_completeness auto
termination
  by (relation "measure id") auto

declare fmt_x.simps [simp del]
declare fmt_d.simps [simp del]

subsection \<open>enumerateRaw\<close>

text \<open>
  Lines 103 to 113: the switch over one endpoint, and the loop over the endpoints of an
  alternate setting. The state is the pair of pointers \<^verbatim>\<open>(reader, writer)\<close>, nil being
  \<open>None\<close>. Go's \<^verbatim>\<open>&\<close> binds tighter than \<^verbatim>\<open>==\<close>, and the first case that holds is taken.
\<close>

definition classify_endpoint ::
  "libusb_endpoint_descriptor \<Rightarrow> uint8 option \<times> uint8 option \<Rightarrow> uint8 option \<times> uint8 option" where
  "classify_endpoint e rw =
     (if (bEndpointAddress e AND LIBUSB_ENDPOINT_OUT) = LIBUSB_ENDPOINT_OUT
          \<and> bmAttributes e = LIBUSB_TRANSFER_TYPE_INTERRUPT
      then (fst rw, Some (bEndpointAddress e))
      else if (bEndpointAddress e AND LIBUSB_ENDPOINT_IN) = LIBUSB_ENDPOINT_IN
          \<and> bmAttributes e = LIBUSB_TRANSFER_TYPE_INTERRUPT
      then (Some (bEndpointAddress e), snd rw)
      else rw)"

fun classify_endpoints ::
  "libusb_endpoint_descriptor list \<Rightarrow> uint8 option \<times> uint8 option \<Rightarrow> uint8 option \<times> uint8 option" where
  "classify_endpoints [] rw = rw"
| "classify_endpoints (e # ends) rw = classify_endpoints ends (classify_endpoint e rw)"

text \<open>Line 115: the alternate setting matches when both pointers are set.\<close>

definition alt_matches :: "libusb_interface_descriptor \<Rightarrow> bool" where
  "alt_matches alt =
     (case classify_endpoints (endpoint alt) (None, None) of
        (Some r, Some w) \<Rightarrow> True
      | _ \<Rightarrow> False)"

text \<open>
  Lines 115 to 125: the test on the two pointers and the \<^verbatim>\<open>append\<close> of the
  \<^verbatim>\<open>DeviceInfo\<close> literal. \<open>vendorID\<close> is the argument of \<^verbatim>\<open>enumerateRaw\<close>, \<open>desc\<close> the
  device descriptor, \<open>port\<close> the result of \<^verbatim>\<open>libusb_get_port_number\<close>.
\<close>

definition match_device ::
  "uint16 \<Rightarrow> libusb_device_descriptor \<Rightarrow> uint8 \<Rightarrow> nat \<Rightarrow> nat
     \<Rightarrow> uint8 option \<times> uint8 option \<Rightarrow> DeviceInfo list \<Rightarrow> DeviceInfo list" where
  "match_device vendorID desc port ifacenum devnum rw infos =
     (case rw of
        (Some r, Some w) \<Rightarrow>
          infos @ [\<lparr>Path = fmt_x (unat vendorID) @ '':'' @ fmt_x (unat (idProduct desc))
                            @ '':'' @ fmt_d (unat port),
                     VendorID = idVendor desc,
                     ProductID = idProduct desc,
                     Interface = ifacenum,
                     rawDevice = devnum,
                     rawReader = Some r,
                     rawWriter = Some w\<rparr>]
      | _ \<Rightarrow> infos)"

text \<open>Lines 95 to 126: the loop over the alternate settings of one interface.\<close>

fun alts_loop ::
  "uint16 \<Rightarrow> libusb_device_descriptor \<Rightarrow> uint8 \<Rightarrow> nat \<Rightarrow> nat
     \<Rightarrow> libusb_interface_descriptor list \<Rightarrow> DeviceInfo list \<Rightarrow> DeviceInfo list" where
  "alts_loop vendorID desc port ifacenum devnum [] infos = infos"
| "alts_loop vendorID desc port ifacenum devnum (alt # alts) infos =
     alts_loop vendorID desc port ifacenum devnum alts
       (match_device vendorID desc port ifacenum devnum
          (classify_endpoints (endpoint alt) (None, None)) infos)"

text \<open>
  Lines 85 to 127: the loop over the interfaces of one configuration, \<open>ifacenum\<close> being
  the index of \<^verbatim>\<open>range\<close>. An interface without alternate settings is skipped.
\<close>

fun ifaces_loop ::
  "uint16 \<Rightarrow> libusb_device_descriptor \<Rightarrow> uint8 \<Rightarrow> nat \<Rightarrow> nat
     \<Rightarrow> libusb_interface list \<Rightarrow> DeviceInfo list \<Rightarrow> DeviceInfo list" where
  "ifaces_loop vendorID desc port devnum ifacenum [] infos = infos"
| "ifaces_loop vendorID desc port devnum ifacenum (iface # ifaces) infos =
     ifaces_loop vendorID desc port devnum (Suc ifacenum) ifaces
       (if length (altsetting iface) = 0 then infos
        else alts_loop vendorID desc port ifacenum devnum (altsetting iface) infos)"

text \<open>
  Lines 72 to 128: the loop over the configuration indices. \<open>fromRawErrno\<close> is the
  repository's translation of a libusb return code into a Go error (nil being \<open>None\<close>);
  it is defined in another file of the package and is a parameter of the model. A failure
  leaves the loop with the error: \<open>Inl\<close> is the \<^verbatim>\<open>return nil, err\<close> of line 76.
\<close>

function configs_loop ::
  "(int \<Rightarrow> error option) \<Rightarrow> uint16 \<Rightarrow> libusb_device \<Rightarrow> libusb_device_descriptor \<Rightarrow> nat
     \<Rightarrow> nat \<Rightarrow> DeviceInfo list \<Rightarrow> error + DeviceInfo list" where
  "configs_loop fromRawErrno vendorID dev desc devnum cfgnum infos =
     (if cfgnum < unat (bNumConfigurations desc) then
        (case fromRawErrno (fst (libusb_get_config_descriptor dev cfgnum)) of
           Some err \<Rightarrow> Inl (ConfigDescriptorError devnum cfgnum err)
         | None \<Rightarrow>
             configs_loop fromRawErrno vendorID dev desc devnum (cfgnum + 1)
               (ifaces_loop vendorID desc (libusb_get_port_number dev) devnum 0
                  (interface (snd (libusb_get_config_descriptor dev cfgnum))) infos))
      else Inr infos)"
  by pat_completeness auto
termination
  by (relation "measure (\<lambda>(f, v, dev, desc, devnum, cfgnum, infos).
        unat (bNumConfigurations desc) - cfgnum)") auto

declare configs_loop.simps [simp del]

text \<open>Lines 64 and 68: the two tests that skip a device.\<close>

definition filtered_out :: "uint16 \<Rightarrow> uint16 \<Rightarrow> bool \<Rightarrow> libusb_device_descriptor \<Rightarrow> bool" where
  "filtered_out vendorID productID skipHid desc \<longleftrightarrow>
     ((vendorID > 0 \<and> idVendor desc \<noteq> vendorID) \<or> (productID > 0 \<and> idProduct desc \<noteq> productID))
     \<or> (skipHid \<and> bDeviceClass desc = LIBUSB_CLASS_HID)"

text \<open>Lines 58 to 129: the loop over the devices, \<open>devnum\<close> being the index of \<^verbatim>\<open>range\<close>.\<close>

fun devices_loop ::
  "(int \<Rightarrow> error option) \<Rightarrow> uint16 \<Rightarrow> uint16 \<Rightarrow> bool \<Rightarrow> nat
     \<Rightarrow> libusb_device list \<Rightarrow> DeviceInfo list \<Rightarrow> error + DeviceInfo list" where
  "devices_loop fromRawErrno vendorID productID skipHid devnum [] infos = Inr infos"
| "devices_loop fromRawErrno vendorID productID skipHid devnum (dev # devices) infos =
     (case fromRawErrno (fst (libusb_get_device_descriptor dev)) of
        Some err \<Rightarrow> Inl (DeviceDescriptorError devnum err)
      | None \<Rightarrow>
          (if filtered_out vendorID productID skipHid (snd (libusb_get_device_descriptor dev))
           then devices_loop fromRawErrno vendorID productID skipHid (Suc devnum) devices infos
           else
             (case configs_loop fromRawErrno vendorID dev
                     (snd (libusb_get_device_descriptor dev)) devnum 0 infos of
                Inl err \<Rightarrow> Inl err
              | Inr infos' \<Rightarrow>
                  devices_loop fromRawErrno vendorID productID skipHid (Suc devnum) devices infos')))"

text \<open>
  \<^verbatim>\<open>rawError(count)\<close>: the count, of the C type \<^verbatim>\<open>ssize_t\<close>, converted to the error type,
  which is a 32-bit C integer.
\<close>

definition rawError :: "int \<Rightarrow> error" where
  "rawError count = RawError (sint (word_of_int count :: 32 word))"

text \<open>
  The whole function. The result is Go's pair \<^verbatim>\<open>([]DeviceInfo, error)\<close>: the nil slice is
  \<open>[]\<close> and the nil error \<open>None\<close>. The slice over the device list has the length
  \<^verbatim>\<open>count\<close>.
\<close>

definition enumerateRaw ::
  "(int \<Rightarrow> error option) \<Rightarrow> libusb \<Rightarrow> uint16 \<Rightarrow> uint16 \<Rightarrow> bool \<Rightarrow> DeviceInfo list \<times> error option" where
  "enumerateRaw fromRawErrno usb vendorID productID skipHid =
     (if libusb_init usb < 0 then ([], Some (InitError (libusb_init usb)))
      else if libusb_get_device_list usb < 0 then ([], Some (rawError (libusb_get_device_list usb)))
      else
        (case devices_loop fromRawErrno vendorID productID skipHid 0
                (take (nat (libusb_get_device_list usb)) (deviceList usb)) [] of
           Inl err \<Rightarrow> ([], Some err)
         | Inr infos \<Rightarrow> (infos, None)))"

subsection \<open>RawDevice\<close>

text \<open>
  A \<^verbatim>\<open>RawDevice\<close> embeds its \<^verbatim>\<open>DeviceInfo\<close> and holds the libusb handle, nil being
  \<open>None\<close>. The mutex is not part of the model: each operation below is one whole call,
  run alone.
\<close>

record RawDevice = DeviceInfo +
  handle :: "nat option"

text \<open>The calls a \<^verbatim>\<open>RawDevice\<close> makes into libusb, in the order they are made.\<close>

datatype host_call =
    LibusbClose nat
  | LibusbInterruptTransfer "nat option" uint8 int

text \<open>
  What \<^verbatim>\<open>libusb_interrupt_transfer\<close> answers, given the handle, the endpoint, the buffer
  and the length it is called with: its return code and the value it stores in
  \<^verbatim>\<open>transferred\<close>.
\<close>

type_synonym interrupt_transfer = "nat option \<Rightarrow> uint8 \<Rightarrow> uint8 list \<Rightarrow> int \<Rightarrow> int \<times> int"

text \<open>A call either returns Go's pair \<^verbatim>\<open>(int, error)\<close> or stops in a run-time panic.\<close>

datatype panic = NilDereference | IndexOutOfRange

datatype outcome = Panicked panic | Returned int "error option"

fun is_panic :: "outcome \<Rightarrow> bool" where
  "is_panic (Panicked p) = True"
| "is_panic (Returned n err) = False"

text \<open>\<^verbatim>\<open>(C.int)(len(b))\<close>: the length converted to a 32-bit signed integer.\<close>

definition C_int_len :: "uint8 list \<Rightarrow> int" where
  "C_int_len b = sint (word_of_nat (length b) :: 32 word)"

text \<open>Lines 154 to 163. The result is the returned error, the device and the log.\<close>

definition Close :: "RawDevice \<Rightarrow> host_call list \<Rightarrow> error option \<times> RawDevice \<times> host_call list" where
  "Close dev calls =
     (case handle dev of
        Some h \<Rightarrow> (None, dev\<lparr>handle := None\<rparr>, calls @ [LibusbClose h])
      | None \<Rightarrow> (None, dev, calls))"

text \<open>
  Lines 166 to 175 and 178 to 187, which differ in the endpoint only. The arguments of
  the C call are evaluated before it is made: \<^verbatim>\<open>*dev.rawWriter\<close> panics on a nil pointer
  and \<^verbatim>\<open>&b[0]\<close> on an empty slice, and then libusb is not called.
\<close>

definition transfer ::
  "(int \<Rightarrow> error option) \<Rightarrow> interrupt_transfer \<Rightarrow> nat option \<Rightarrow> uint8 option \<Rightarrow> uint8 list
     \<Rightarrow> host_call list \<Rightarrow> outcome \<times> host_call list" where
  "transfer fromRawErrno libusb_interrupt_transfer h ep b calls =
     (case ep of
        None \<Rightarrow> (Panicked NilDereference, calls)
      | Some a \<Rightarrow>
          (if b = [] then (Panicked IndexOutOfRange, calls)
           else
             (case fromRawErrno (fst (libusb_interrupt_transfer h a b (C_int_len b))) of
                Some err \<Rightarrow> Returned 0 (Some err)
              | None \<Rightarrow> Returned (snd (libusb_interrupt_transfer h a b (C_int_len b))) None,
              calls @ [LibusbInterruptTransfer h a (C_int_len b)])))"

definition Write ::
  "(int \<Rightarrow> error option) \<Rightarrow> interrupt_transfer \<Rightarrow> RawDevice \<Rightarrow> uint8 list
     \<Rightarrow> host_call list \<Rightarrow> outcome \<times> host_call list" where
  "Write fromRawErrno libusb_interrupt_transfer dev b calls =
     transfer fromRawErrno libusb_interrupt_transfer (handle dev) (rawWriter dev) b calls"

definition Read ::
  "(int \<Rightarrow> error option) \<Rightarrow> interrupt_transfer \<Rightarrow> RawDevice \<Rightarrow> uint8 list
     \<Rightarrow> host_call list \<Rightarrow> outcome \<times> host_call list" where
  "Read fromRawErrno libusb_interrupt_transfer dev b calls =
     transfer fromRawErrno libusb_interrupt_transfer (handle dev) (rawReader dev) b calls"

subsection \<open>Properties of a run of enumerateRaw\<close>

text \<open>
  A descriptor that \<^verbatim>\<open>enumerateRaw\<close> asks for about this device cannot be obtained: the
  device descriptor, or, for a device that is not skipped, one of its configuration
  descriptors.
\<close>

definition fetch_fails ::
  "(int \<Rightarrow> error option) \<Rightarrow> uint16 \<Rightarrow> uint16 \<Rightarrow> bool \<Rightarrow> libusb_device \<Rightarrow> bool" where
  "fetch_fails fromRawErrno vendorID productID skipHid dev \<longleftrightarrow>
     fromRawErrno (fst (libusb_get_device_descriptor dev)) \<noteq> None
     \<or> (\<not> filtered_out vendorID productID skipHid (snd (libusb_get_device_descriptor dev))
        \<and> (\<exists>cfgnum \<in> set [0 ..< unat (bNumConfigurations (snd (libusb_get_device_descriptor dev)))].
              fromRawErrno (fst (libusb_get_config_descriptor dev cfgnum)) \<noteq> None))"

text \<open>
  The error of the first descriptor call that fails among those \<^verbatim>\<open>enumerateRaw\<close> makes
  for the device at index \<open>devnum\<close>, in the order it makes them: the device descriptor,
  then, unless the device is skipped, the configurations from index 0 upwards. \<open>None\<close>
  when none of these calls fails.
\<close>

definition descriptor_error ::
  "(int \<Rightarrow> error option) \<Rightarrow> uint16 \<Rightarrow> uint16 \<Rightarrow> bool \<Rightarrow> nat \<Rightarrow> libusb_device \<Rightarrow> error option" where
  "descriptor_error fromRawErrno vendorID productID skipHid devnum dev =
     (case fromRawErrno (fst (libusb_get_device_descriptor dev)) of
        Some err \<Rightarrow> Some (DeviceDescriptorError devnum err)
      | None \<Rightarrow>
          (if filtered_out vendorID productID skipHid (snd (libusb_get_device_descriptor dev))
           then None
           else
             (case find (\<lambda>cfgnum. fromRawErrno (fst (libusb_get_config_descriptor dev cfgnum)) \<noteq> None)
                     [0 ..< unat (bNumConfigurations (snd (libusb_get_device_descriptor dev)))] of
                None \<Rightarrow> None
              | Some cfgnum \<Rightarrow>
                  map_option (ConfigDescriptorError devnum cfgnum)
                    (fromRawErrno (fst (libusb_get_config_descriptor dev cfgnum))))))"

subsection \<open>Concrete inputs\<close>

text \<open>A translation of return codes in which 0 is success and any other code an error.\<close>

definition sample_errno :: "int \<Rightarrow> error option" where
  "sample_errno rc = (if rc = 0 then None else Some (RawError rc))"

text \<open>Endpoints 1 IN and 1 OUT, as interrupt (3) and as bulk (2) endpoints.\<close>

definition ep_in_interrupt :: libusb_endpoint_descriptor where
  "ep_in_interrupt = \<lparr>bEndpointAddress = 0x81, bmAttributes = 3\<rparr>"

definition ep_out_interrupt :: libusb_endpoint_descriptor where
  "ep_out_interrupt = \<lparr>bEndpointAddress = 0x01, bmAttributes = 3\<rparr>"

definition ep_in_bulk :: libusb_endpoint_descriptor where
  "ep_in_bulk = \<lparr>bEndpointAddress = 0x81, bmAttributes = 2\<rparr>"

definition ep_out_bulk :: libusb_endpoint_descriptor where
  "ep_out_bulk = \<lparr>bEndpointAddress = 0x01, bmAttributes = 2\<rparr>"

text \<open>
  A device 1234:5678 on port 2 that is not of the HID class, with one configuration of
  one interface, whose only alternate setting has the interrupt pair.
\<close>

definition sample_desc :: libusb_device_descriptor where
  "sample_desc = \<lparr>idVendor = 0x1234, idProduct = 0x5678, bDeviceClass = 0, bNumConfigurations = 1\<rparr>"

definition sample_config :: libusb_config_descriptor where
  "sample_config =
     \<lparr>interface = [\<lparr>altsetting = [\<lparr>endpoint = [ep_in_interrupt, ep_out_interrupt]\<rparr>]\<rparr>]\<rparr>"

definition sample_device :: libusb_device where
  "sample_device = \<lparr>libusb_get_device_descriptor = (0, sample_desc),
                     libusb_get_config_descriptor = (\<lambda>cfgnum. (0, sample_config)),
                     libusb_get_port_number = 2\<rparr>"

definition sample_usb :: libusb where
  "sample_usb = \<lparr>libusb_init = 0, libusb_get_device_list = 1, deviceList = [sample_device]\<rparr>"

text \<open>A second device whose configuration descriptors cannot be read (code -4).\<close>

definition broken_device :: libusb_device where
  "broken_device = \<lparr>libusb_get_device_descriptor = (0, sample_desc),
                     libusb_get_config_descriptor = (\<lambda>cfgnum. (- 4, \<lparr>interface = []\<rparr>)),
                     libusb_get_port_number = 3\<rparr>"

text \<open>
  A device of another vendor whose configuration descriptors cannot be read either
  (code -5), listed before the broken device.
\<close>

definition other_vendor_device :: libusb_device where
  "other_vendor_device =
     \<lparr>libusb_get_device_descriptor =
        (0, \<lparr>idVendor = 0x9999, idProduct = 1, bDeviceClass = 0, bNumConfigurations = 1\<rparr>),
      libusb_get_config_descriptor = (\<lambda>cfgnum. (- 5, \<lparr>interface = []\<rparr>)),
      libusb_get_port_number = 1\<rparr>"

definition filtered_usb :: libusb where
  "filtered_usb = \<lparr>libusb_init = 0, libusb_get_device_list = 2,
                    deviceList = [other_vendor_device, broken_device]\<rparr>"

text \<open>An opened device with handle 7, and four behaviours of the interrupt transfer.\<close>

definition sample_raw :: RawDevice where
  "sample_raw = \<lparr>Path = ''1234:5678:2'', VendorID = 0x1234, ProductID = 0x5678, Interface = 0,
                  rawDevice = 0, rawReader = Some 0x81, rawWriter = Some 0x01, handle = Some 7\<rparr>"

definition host_rejects_nil :: interrupt_transfer where
  "host_rejects_nil h a b n = (if h = None then (- 2, 0) else (0, n))"

definition host_short :: interrupt_transfer where
  "host_short h a b n = (0, 1)"

definition host_io_error :: interrupt_transfer where
  "host_io_error h a b n = (- 1, 5)"

text \<open>A host on which a read transfers one byte and a write the whole buffer.\<close>

definition host_short_reads :: interrupt_transfer where
  "host_short_reads h a b n = (if a AND 0x80 = 0x80 then (0, 1) else (0, n))"

text \<open>\<^verbatim>\<open>Close\<close> called a number of times in a row on the same device.\<close>

fun Close_times :: "nat \<Rightarrow> RawDevice \<Rightarrow> host_call list \<Rightarrow> RawDevice \<times> host_call list" where
  "Close_times 0 dev calls = (dev, calls)"
| "Close_times (Suc n) dev calls =
     Close_times n (fst (snd (Close dev calls))) (snd (snd (Close dev calls)))"

section \<open>The endpoint switch never sets the reader\<close>

text \<open>
  \<^verbatim>\<open>LIBUSB_ENDPOINT_OUT\<close> is 0, so the mask test of the first case holds for every
  address: an interrupt endpoint of either direction takes the first case, and the second
  case is reached only by endpoints that are not interrupt endpoints, which it rejects.
\<close>

lemma classify_endpoint_reader: "fst (classify_endpoint e rw) = fst rw"
  by (simp add: classify_endpoint_def LIBUSB_ENDPOINT_OUT_def)

lemma classify_endpoints_reader: "fst (classify_endpoints ends rw) = fst rw"
  by (induction ends arbitrary: rw) (simp_all add: classify_endpoint_reader)

lemma alt_never_matches: "\<not> alt_matches alt"
proof -
  have "fst (classify_endpoints (endpoint alt) (None, None)) = None"
    by (simp add: classify_endpoints_reader)
  then show ?thesis
    by (cases "classify_endpoints (endpoint alt) (None, None)") (simp add: alt_matches_def)
qed

lemma match_device_alt_matches:
  "length (match_device v d p i n (classify_endpoints (endpoint alt) (None, None)) infos) =
     (if alt_matches alt then Suc (length infos) else length infos)"
  by (simp add: match_device_def alt_matches_def split: prod.splits option.splits)

lemma match_device_no_reader: "fst rw = None \<Longrightarrow> match_device v d p i n rw infos = infos"
  by (cases rw) (simp add: match_device_def)

lemma alts_loop_unchanged: "alts_loop v d p i n alts infos = infos"
  by (induction alts arbitrary: infos)
     (simp_all add: match_device_no_reader classify_endpoints_reader)

lemma ifaces_loop_unchanged: "ifaces_loop v d p n i ifaces infos = infos"
  by (induction ifaces arbitrary: i infos) (simp_all add: alts_loop_unchanged)

lemma configs_loop_unchanged:
  "configs_loop F v dev d n c infos = Inr infos' \<Longrightarrow> infos' = infos"
proof (induction F v dev d n c infos rule: configs_loop.induct)
  case (1 F v dev d n c infos)
  then show ?case
    by (subst (asm) (2) configs_loop.simps)
       (auto simp: ifaces_loop_unchanged split: if_splits option.splits)
qed

lemma devices_loop_unchanged:
  "devices_loop F v p s n devs infos = Inr infos' \<Longrightarrow> infos' = infos"
proof (induction devs arbitrary: n infos)
  case Nil
  then show ?case by simp
next
  case (Cons dev devs)
  then show ?case
    by (auto split: option.splits if_splits sum.splits dest: configs_loop_unchanged)
qed

lemma enumerateRaw_no_infos: "fst (enumerateRaw F usb v p s) = []"
  by (auto simp: enumerateRaw_def split: sum.splits dest: devices_loop_unchanged)

text \<open>
  C1. The claim: a device is in the result exactly when it passes the vendor and product
  filter, is not skipped as HID, and has an alternate setting with an interrupt IN and an
  interrupt OUT endpoint. The code, at a device that passes both filters and has such an
  alternate setting, with both filters 0: the result is the empty list with no error.
\<close>

theorem enumerateRaw_drops_interrupt_pair:
  "\<not> filtered_out 0 0 False (snd (libusb_get_device_descriptor sample_device))
   \<and> endpoint (hd (altsetting (hd (interface (snd (libusb_get_config_descriptor sample_device 0))))))
       = [ep_in_interrupt, ep_out_interrupt]
   \<and> enumerateRaw sample_errno sample_usb 0 0 False = ([], None)"
  by (simp add: enumerateRaw_def sample_usb_def sample_device_def sample_desc_def
      sample_errno_def filtered_out_def configs_loop.simps sample_config_def
      ifaces_loop_unchanged)

text \<open>
  C2. The claim: an endpoint is the reader exactly when it is an interrupt IN endpoint, the
  writer exactly when it is an interrupt OUT endpoint, and the alternate setting with the
  pair IN/interrupt, OUT/interrupt matches. The code: the interrupt IN endpoint 0x81 is
  stored as the writer, the pair leaves the reader nil, and the alternate setting does not
  match. The two other examples of the claim do not match either.
\<close>

theorem classify_interrupt_pair:
  "classify_endpoint ep_in_interrupt (None, None) = (None, Some 0x81)
   \<and> classify_endpoints [ep_in_interrupt, ep_out_interrupt] (None, None) = (None, Some 0x01)
   \<and> alt_matches \<lparr>endpoint = [ep_in_interrupt, ep_out_interrupt]\<rparr> = False
   \<and> alt_matches \<lparr>endpoint = [ep_in_bulk, ep_out_bulk]\<rparr> = False
   \<and> alt_matches \<lparr>endpoint = [ep_in_interrupt]\<rparr> = False"
  by (simp add: alt_matches_def classify_endpoint_def ep_in_interrupt_def ep_out_interrupt_def
      ep_in_bulk_def ep_out_bulk_def LIBUSB_ENDPOINT_OUT_def LIBUSB_ENDPOINT_IN_def
      LIBUSB_TRANSFER_TYPE_INTERRUPT_def)

text \<open>
  The \<^verbatim>\<open>DeviceInfo\<close> literal of lines 116 to 124, were it reached with both endpoints
  found: for the device 1234:5678 on port 2 and the vendor filter 0 the path starts with
  the filter, 0, while the field \<^verbatim>\<open>VendorID\<close> is 0x1234. No run reaches it, since the
  result of \<^verbatim>\<open>enumerateRaw\<close> has no element.
\<close>

lemma enumerateRaw_produces_nothing: "info \<notin> set (fst (enumerateRaw F usb v p s))"
  by (simp add: enumerateRaw_no_infos)

lemma match_device_path_has_filter:
  "match_device 0 sample_desc 2 0 0 (Some 0x81, Some 0x01) [] =
     [\<lparr>Path = ''0:5678:2'', VendorID = 0x1234, ProductID = 0x5678, Interface = 0,
       rawDevice = 0, rawReader = Some 0x81, rawWriter = Some 0x01\<rparr>]"
  by (simp add: match_device_def sample_desc_def fmt_x.simps fmt_d.simps hex_digit_def)

section \<open>Failures of the descriptor calls\<close>

text \<open>
  The loop over the configurations runs to its end when no index from \<open>c\<close> on fails,
  and leaves with the error of the least failing index otherwise.
\<close>

lemma configs_loop_none_fails:
  "find (\<lambda>k. F (fst (libusb_get_config_descriptor dev k)) \<noteq> None)
      [c ..< unat (bNumConfigurations d)] = None \<Longrightarrow>
   \<exists>infos'. configs_loop F v dev d n c infos = Inr infos'"
proof (induction F v dev d n c infos rule: configs_loop.induct)
  case (1 F v dev d n c infos)
  show ?case
  proof (cases "c < unat (bNumConfigurations d)")
    case True
    with "1.prems" have none: "F (fst (libusb_get_config_descriptor dev c)) = None"
      and rest: "find (\<lambda>k. F (fst (libusb_get_config_descriptor dev k)) \<noteq> None)
                   [c + 1 ..< unat (bNumConfigurations d)] = None"
      by (simp_all add: upt_rec [of c] split: if_splits)
    from "1.IH" [OF True none rest] True none show ?thesis
      by (subst configs_loop.simps) simp
  next
    case False
    then show ?thesis by (subst configs_loop.simps) simp
  qed
qed

lemma configs_loop_first_failure:
  "find (\<lambda>k. F (fst (libusb_get_config_descriptor dev k)) \<noteq> None)
      [c ..< unat (bNumConfigurations d)] = Some k \<Longrightarrow>
   F (fst (libusb_get_config_descriptor dev k)) = Some e \<Longrightarrow>
   configs_loop F v dev d n c infos = Inl (ConfigDescriptorError n k e)"
proof (induction F v dev d n c infos rule: configs_loop.induct)
  case (1 F v dev d n c infos)
  from "1.prems"(1) have lt: "c < unat (bNumConfigurations d)"
    by (cases "c < unat (bNumConfigurations d)") simp_all
  show ?case
  proof (cases "F (fst (libusb_get_config_descriptor dev c))")
    case None
    with "1.prems"(1) lt have
      "find (\<lambda>k. F (fst (libusb_get_config_descriptor dev k)) \<noteq> None)
         [c + 1 ..< unat (bNumConfigurations d)] = Some k"
      by (simp add: upt_rec [of c])
    from "1.IH" [OF lt None this "1.prems"(2)] lt None show ?thesis
      by (subst configs_loop.simps) simp
  next
    case (Some e')
    with "1.prems"(1) lt have "k = c" by (simp add: upt_rec [of c])
    with Some "1.prems"(2) lt show ?thesis
      by (subst configs_loop.simps) simp
  qed
qed

lemma find_failing_config:
  "find (\<lambda>k. F (fst (libusb_get_config_descriptor dev k)) \<noteq> None) cs = Some k \<Longrightarrow>
   \<exists>e. F (fst (libusb_get_config_descriptor dev k)) = Some e"
proof -
  assume "find (\<lambda>k. F (fst (libusb_get_config_descriptor dev k)) \<noteq> None) cs = Some k"
  then have "F (fst (libusb_get_config_descriptor dev k)) \<noteq> None"
    unfolding find_Some_iff by blast
  then show ?thesis by blast
qed

lemma fetch_fails_descriptor_error:
  "fetch_fails F v p s dev \<longleftrightarrow> descriptor_error F v p s n dev \<noteq> None"
proof (cases "F (fst (libusb_get_device_descriptor dev))")
  case (Some e)
  then show ?thesis by (simp add: fetch_fails_def descriptor_error_def)
next
  case None
  let ?P = "\<lambda>k. F (fst (libusb_get_config_descriptor dev k)) \<noteq> None"
  let ?cs = "[0 ..< unat (bNumConfigurations (snd (libusb_get_device_descriptor dev)))]"
  show ?thesis
  proof (cases "find ?P ?cs")
    case n: None
    then have "\<not> (\<exists>k \<in> set ?cs. ?P k)" unfolding find_None_iff by blast
    with None n show ?thesis
      unfolding fetch_fails_def descriptor_error_def by simp
  next
    case (Some k)
    then have "k \<in> set ?cs" and "?P k" unfolding find_Some_iff by auto
    then have ex: "\<exists>k \<in> set ?cs. ?P k" by blast
    from \<open>?P k\<close> obtain e where "F (fst (libusb_get_config_descriptor dev k)) = Some e" by blast
    with None Some ex show ?thesis
      unfolding fetch_fails_def descriptor_error_def by simp
  qed
qed

lemma devices_loop_first_failure:
  "k < length devs \<Longrightarrow>
   \<forall>j<k. descriptor_error F v p s (n + j) (devs ! j) = None \<Longrightarrow>
   descriptor_error F v p s (n + k) (devs ! k) = Some err \<Longrightarrow>
   devices_loop F v p s n devs infos = Inl err"
proof (induction devs arbitrary: k n infos)
  case Nil
  then show ?case by simp
next
  case (Cons dev devs)
  let ?d = "snd (libusb_get_device_descriptor dev)"
  let ?P = "\<lambda>c. F (fst (libusb_get_config_descriptor dev c)) \<noteq> None"
  show ?case
  proof (cases k)
    case 0
    with Cons.prems(3) have e: "descriptor_error F v p s n dev = Some err" by simp
    show ?thesis
    proof (cases "F (fst (libusb_get_device_descriptor dev))")
      case (Some e')
      with e show ?thesis by (simp add: descriptor_error_def)
    next
      case None
      with e have nf: "\<not> filtered_out v p s ?d"
        by (auto simp: descriptor_error_def split: if_splits)
      from e None nf obtain c where c: "find ?P [0 ..< unat (bNumConfigurations ?d)] = Some c"
        unfolding descriptor_error_def by (cases "find ?P [0 ..< unat (bNumConfigurations ?d)]") simp_all
      from find_failing_config [OF c] obtain e' where
        e': "F (fst (libusb_get_config_descriptor dev c)) = Some e'" by blast
      from e None nf c e' have "err = ConfigDescriptorError n c e'"
        unfolding descriptor_error_def by simp
      with configs_loop_first_failure [OF c e', of v n infos] None nf
      show ?thesis by simp
    qed
  next
    case (Suc k')
    from Cons.prems(2) Suc have "descriptor_error F v p s (n + 0) ((dev # devs) ! 0) = None"
      by blast
    then have e: "descriptor_error F v p s n dev = None" by simp
    then have none: "F (fst (libusb_get_device_descriptor dev)) = None"
      by (simp add: descriptor_error_def split: option.splits)
    from Cons.prems Suc have k': "k' < length devs"
      and before: "\<forall>j<k'. descriptor_error F v p s (Suc n + j) (devs ! j) = None"
      and at: "descriptor_error F v p s (Suc n + k') (devs ! k') = Some err"
      by auto
    have rest: "devices_loop F v p s (Suc n) devs infos' = Inl err" for infos'
      by (rule Cons.IH [OF k' before at])
    show ?thesis
    proof (cases "filtered_out v p s ?d")
      case True
      with none rest show ?thesis by simp
    next
      case False
      have "find ?P [0 ..< unat (bNumConfigurations ?d)] = None"
      proof (cases "find ?P [0 ..< unat (bNumConfigurations ?d)]")
        case None
        then show ?thesis .
      next
        case (Some c)
        from find_failing_config [OF Some] obtain e' where
          "F (fst (libusb_get_config_descriptor dev c)) = Some e'" by blast
        with e none False Some show ?thesis
          unfolding descriptor_error_def by simp
      qed
      from configs_loop_none_fails [OF this, of v n infos] obtain infos' where
        "configs_loop F v dev ?d n 0 infos = Inr infos'" by blast
      with none False rest show ?thesis by simp
    qed
  qed
qed

lemma enumerateRaw_first_failure:
  assumes "0 \<le> libusb_init usb" and "0 \<le> libusb_get_device_list usb"
    and "k < length (take (nat (libusb_get_device_list usb)) (deviceList usb))"
    and "\<forall>j<k. \<not> fetch_fails F v p s (take (nat (libusb_get_device_list usb)) (deviceList usb) ! j)"
    and "descriptor_error F v p s k
           (take (nat (libusb_get_device_list usb)) (deviceList usb) ! k) = Some err"
  shows "enumerateRaw F usb v p s = ([], Some err)"
proof -
  let ?devs = "take (nat (libusb_get_device_list usb)) (deviceList usb)"
  have "\<forall>j<k. descriptor_error F v p s (0 + j) (?devs ! j) = None"
  proof (intro allI impI)
    fix j assume "j < k"
    with assms(4) have "\<not> fetch_fails F v p s (?devs ! j)" by blast
    then show "descriptor_error F v p s (0 + j) (?devs ! j) = None"
      unfolding fetch_fails_descriptor_error [of F v p s "?devs ! j" "0 + j"] by blast
  qed
  from devices_loop_first_failure [OF assms(3) this, of err "[]"] assms(5)
  have "devices_loop F v p s 0 ?devs [] = Inl err" by simp
  with assms(1,2) show ?thesis by (simp add: enumerateRaw_def)
qed

text \<open>
  C5. When the device descriptor of a device of the list cannot be obtained, or a
  configuration descriptor of a device that is not skipped, \<^verbatim>\<open>enumerateRaw\<close> returns an
  error and the nil list, never a list of the devices found so far. The error is the one
  of the call at which the run stopped: it names the first device of the list for which a
  descriptor call of the run fails, and it is the error of the first such call for that
  device, the device descriptor or else the configuration of the least failing index.
  Here \<^verbatim>\<open>libusb_init\<close> and \<^verbatim>\<open>libusb_get_device_list\<close> succeeded, so that the loop is
  entered.
\<close>

theorem enumerateRaw_fail_fast:
  assumes "0 \<le> libusb_init usb" and "0 \<le> libusb_get_device_list usb"
    and "dev \<in> set (take (nat (libusb_get_device_list usb)) (deviceList usb))"
    and "fetch_fails fromRawErrno vendorID productID skipHid dev"
  shows "\<exists>devnum err.
           devnum < length (take (nat (libusb_get_device_list usb)) (deviceList usb))
         \<and> (\<forall>j<devnum. \<not> fetch_fails fromRawErrno vendorID productID skipHid
                            (take (nat (libusb_get_device_list usb)) (deviceList usb) ! j))
         \<and> descriptor_error fromRawErrno vendorID productID skipHid devnum
             (take (nat (libusb_get_device_list usb)) (deviceList usb) ! devnum) = Some err
         \<and> enumerateRaw fromRawErrno usb vendorID productID skipHid = ([], Some err)"
proof -
  let ?devs = "take (nat (libusb_get_device_list usb)) (deviceList usb)"
  let ?Q = "\<lambda>i. i < length ?devs \<and> fetch_fails fromRawErrno vendorID productID skipHid (?devs ! i)"
  define k where "k = (LEAST i. ?Q i)"
  from assms(3,4) obtain i where "?Q i" by (auto simp: in_set_conv_nth)
  then have k: "?Q k" unfolding k_def by (rule LeastI)
  have before: "\<forall>j<k. \<not> fetch_fails fromRawErrno vendorID productID skipHid (?devs ! j)"
  proof (intro allI impI)
    fix j assume "j < k"
    then have "\<not> ?Q j" unfolding k_def by (rule not_less_Least)
    with \<open>j < k\<close> k show "\<not> fetch_fails fromRawErrno vendorID productID skipHid (?devs ! j)"
      by simp
  qed
  from k obtain err where
    err: "descriptor_error fromRawErrno vendorID productID skipHid k (?devs ! k) = Some err"
    by (auto simp: fetch_fails_descriptor_error [of _ _ _ _ _ k])
  from enumerateRaw_first_failure [OF assms(1,2) _ before err] k
  have "enumerateRaw fromRawErrno usb vendorID productID skipHid = ([], Some err)" by simp
  with k before err show ?thesis by blast
qed

text \<open>
  With the vendor filter 0x1234, a device of another vendor comes first whose
  configurations could not be read: it is skipped, and the error names device 1.
\<close>

theorem enumerateRaw_fail_fast_witness:
  "0 \<le> libusb_init filtered_usb \<and> 0 \<le> libusb_get_device_list filtered_usb
   \<and> broken_device \<in> set (take (nat (libusb_get_device_list filtered_usb)) (deviceList filtered_usb))
   \<and> fetch_fails sample_errno 0x1234 0 False broken_device
   \<and> enumerateRaw sample_errno filtered_usb 0x1234 0 False =
       ([], Some (ConfigDescriptorError 1 0 (RawError (- 4))))
   \<and> (\<exists>devnum err.
           devnum < length (take (nat (libusb_get_device_list filtered_usb)) (deviceList filtered_usb))
         \<and> (\<forall>j<devnum. \<not> fetch_fails sample_errno 0x1234 0 False
                            (take (nat (libusb_get_device_list filtered_usb)) (deviceList filtered_usb) ! j))
         \<and> descriptor_error sample_errno 0x1234 0 False devnum
             (take (nat (libusb_get_device_list filtered_usb)) (deviceList filtered_usb) ! devnum) = Some err
         \<and> enumerateRaw sample_errno filtered_usb 0x1234 0 False = ([], Some err))"
proof -
  have h1: "0 \<le> libusb_init filtered_usb" by (simp add: filtered_usb_def)
  have h2: "0 \<le> libusb_get_device_list filtered_usb" by (simp add: filtered_usb_def)
  have h3: "broken_device \<in> set (take (nat (libusb_get_device_list filtered_usb)) (deviceList filtered_usb))"
    by (simp add: filtered_usb_def)
  have h4: "fetch_fails sample_errno 0x1234 0 False broken_device"
    by (simp add: fetch_fails_def broken_device_def sample_desc_def sample_errno_def filtered_out_def)
  have v: "enumerateRaw sample_errno filtered_usb 0x1234 0 False =
       ([], Some (ConfigDescriptorError 1 0 (RawError (- 4))))"
    by (simp add: enumerateRaw_def filtered_usb_def other_vendor_device_def broken_device_def
        sample_desc_def sample_errno_def filtered_out_def configs_loop.simps)
  from enumerateRaw_fail_fast [OF h1 h2 h3 h4] h1 h2 h3 h4 v show ?thesis by blast
qed

section \<open>Close, Read and Write\<close>

lemma Close_closed: "handle dev = None \<Longrightarrow> Close dev calls = (None, dev, calls)"
  by (simp add: Close_def)

lemma Close_times_closed: "handle dev = None \<Longrightarrow> Close_times n dev calls = (dev, calls)"
  by (induction n) (simp_all add: Close_closed)

text \<open>
  C4. \<^verbatim>\<open>Close\<close> returns no error. The first call on an open device calls
  \<^verbatim>\<open>libusb_close\<close> once with its handle and sets the handle to nil; a call on a device
  whose handle is nil changes nothing and calls nothing. So after any number of calls, one
  or more, the handle has been released once.
\<close>

theorem Close_idempotent:
  "fst (Close dev calls) = None
   \<and> handle (fst (snd (Close dev calls))) = None
   \<and> snd (snd (Close dev calls)) =
       calls @ (case handle dev of Some h \<Rightarrow> [LibusbClose h] | None \<Rightarrow> [])
   \<and> Close (fst (snd (Close dev calls))) (snd (snd (Close dev calls))) =
       (None, snd (Close dev calls))
   \<and> Close_times (Suc n) dev calls = snd (Close dev calls)"
  by (cases "handle dev") (simp_all add: Close_def Close_times_closed)

text \<open>
  C3. The claim: after \<^verbatim>\<open>Close\<close>, \<^verbatim>\<open>Read\<close> and \<^verbatim>\<open>Write\<close> fail with a "device closed"
  error and do not reach the host stack. The code, for a \<^verbatim>\<open>Write\<close> of two bytes after
  \<^verbatim>\<open>Close\<close>, on a host that rejects the nil handle with code -2: libusb is called with
  the nil handle, and the error returned is the one translated from its return code.
\<close>

theorem Write_after_Close_calls_libusb:
  "Write sample_errno host_rejects_nil (fst (snd (Close sample_raw []))) [1, 2]
      (snd (snd (Close sample_raw [])))
    = (Returned 0 (Some (RawError (- 2))),
       [LibusbClose 7, LibusbInterruptTransfer None 0x01 2])"
  by (simp add: Write_def transfer_def Close_def sample_raw_def host_rejects_nil_def
      sample_errno_def C_int_len_def)

text \<open>
  C3, as amended. After \<^verbatim>\<open>Close\<close>, a \<^verbatim>\<open>Read\<close> or \<^verbatim>\<open>Write\<close> with a buffer that is not
  empty, on a device with both endpoints, calls \<^verbatim>\<open>libusb_interrupt_transfer\<close> with the nil
  handle and returns what that call reports: 0 and the translated error, or the
  transferred count and no error.
\<close>

theorem transfer_after_Close:
  assumes "b \<noteq> []" and "rawReader dev = Some r" and "rawWriter dev = Some w"
  shows "Read fromRawErrno x (fst (snd (Close dev calls))) b (snd (snd (Close dev calls))) =
           (case fromRawErrno (fst (x None r b (C_int_len b))) of
              Some err \<Rightarrow> Returned 0 (Some err)
            | None \<Rightarrow> Returned (snd (x None r b (C_int_len b))) None,
            snd (snd (Close dev calls)) @ [LibusbInterruptTransfer None r (C_int_len b)])
       \<and> Write fromRawErrno x (fst (snd (Close dev calls))) b (snd (snd (Close dev calls))) =
           (case fromRawErrno (fst (x None w b (C_int_len b))) of
              Some err \<Rightarrow> Returned 0 (Some err)
            | None \<Rightarrow> Returned (snd (x None w b (C_int_len b))) None,
            snd (snd (Close dev calls)) @ [LibusbInterruptTransfer None w (C_int_len b)])"
  using assms by (cases "handle dev") (simp_all add: Read_def Write_def transfer_def Close_def)

theorem transfer_after_Close_witness:
  "[1, 2] \<noteq> ([] :: uint8 list) \<and> rawReader sample_raw = Some 0x81
   \<and> rawWriter sample_raw = Some 0x01
   \<and> Read sample_errno host_rejects_nil (fst (snd (Close sample_raw []))) [1, 2]
         (snd (snd (Close sample_raw [])))
       = (Returned 0 (Some (RawError (- 2))),
          [LibusbClose 7, LibusbInterruptTransfer None 0x81 2])
   \<and> Write sample_errno host_short (fst (snd (Close sample_raw []))) [1, 2]
         (snd (snd (Close sample_raw [])))
       = (Returned 1 None, [LibusbClose 7, LibusbInterruptTransfer None 0x01 2])"
proof -
  have h1: "[1, 2] \<noteq> ([] :: uint8 list)" by simp
  have h2: "rawReader sample_raw = Some 0x81" by (simp add: sample_raw_def)
  have h3: "rawWriter sample_raw = Some 0x01" by (simp add: sample_raw_def)
  have c: "C_int_len [1, 2] = 2" by (simp add: C_int_len_def)
  have k: "snd (snd (Close sample_raw [])) = [LibusbClose 7]"
    by (simp add: Close_def sample_raw_def)
  from transfer_after_Close [OF h1 h2 h3, of sample_errno host_rejects_nil "[]"]
       transfer_after_Close [OF h1 h2 h3, of sample_errno host_short "[]"] h1 h2 h3
  show ?thesis by (simp add: c k host_rejects_nil_def host_short_def sample_errno_def)
qed

text \<open>
  C6. When the buffer is not empty and the interrupt transfer on the reader endpoint
  returns a code that is translated to no error, having transferred fewer bytes than the
  buffer holds, \<^verbatim>\<open>Read\<close> returns that count and no error; the same holds of \<^verbatim>\<open>Write\<close>
  and the writer endpoint. Each direction depends on its own transfer only.
\<close>

theorem short_transfer_is_success:
  "(b \<noteq> [] \<and> rawReader dev = Some r
      \<and> fromRawErrno (fst (x (handle dev) r b (C_int_len b))) = None
      \<and> snd (x (handle dev) r b (C_int_len b)) < int (length b)
    \<longrightarrow> fst (Read fromRawErrno x dev b calls) =
          Returned (snd (x (handle dev) r b (C_int_len b))) None)
   \<and> (b \<noteq> [] \<and> rawWriter dev = Some w
      \<and> fromRawErrno (fst (x (handle dev) w b (C_int_len b))) = None
      \<and> snd (x (handle dev) w b (C_int_len b)) < int (length b)
    \<longrightarrow> fst (Write fromRawErrno x dev b calls) =
          Returned (snd (x (handle dev) w b (C_int_len b))) None)"
  by (simp add: Read_def Write_def transfer_def)

text \<open>
  A read of one byte into a buffer of two on a host whose writes are complete, and a
  write of one byte out of two.
\<close>

theorem short_transfer_is_success_witness:
  "([1, 2] \<noteq> ([] :: uint8 list) \<and> rawReader sample_raw = Some 0x81
      \<and> sample_errno (fst (host_short_reads (handle sample_raw) 0x81 [1, 2] (C_int_len [1, 2]))) = None
      \<and> snd (host_short_reads (handle sample_raw) 0x81 [1, 2] (C_int_len [1, 2]))
          < int (length [1, 2 :: uint8]))
   \<and> fst (Read sample_errno host_short_reads sample_raw [1, 2] []) = Returned 1 None
   \<and> fst (Write sample_errno host_short_reads sample_raw [1, 2] []) = Returned 2 None
   \<and> ([1, 2] \<noteq> ([] :: uint8 list) \<and> rawWriter sample_raw = Some 0x01
      \<and> sample_errno (fst (host_short (handle sample_raw) 0x01 [1, 2] (C_int_len [1, 2]))) = None
      \<and> snd (host_short (handle sample_raw) 0x01 [1, 2] (C_int_len [1, 2]))
          < int (length [1, 2 :: uint8]))
   \<and> fst (Write sample_errno host_short sample_raw [1, 2] []) = Returned 1 None"
proof -
  have r: "[1, 2] \<noteq> ([] :: uint8 list) \<and> rawReader sample_raw = Some 0x81
      \<and> sample_errno (fst (host_short_reads (handle sample_raw) 0x81 [1, 2] (C_int_len [1, 2]))) = None
      \<and> snd (host_short_reads (handle sample_raw) 0x81 [1, 2] (C_int_len [1, 2]))
          < int (length [1, 2 :: uint8])"
    by (simp add: sample_raw_def sample_errno_def host_short_reads_def)
  have w: "[1, 2] \<noteq> ([] :: uint8 list) \<and> rawWriter sample_raw = Some 0x01
      \<and> sample_errno (fst (host_short (handle sample_raw) 0x01 [1, 2] (C_int_len [1, 2]))) = None
      \<and> snd (host_short (handle sample_raw) 0x01 [1, 2] (C_int_len [1, 2]))
          < int (length [1, 2 :: uint8])"
    by (simp add: sample_raw_def sample_errno_def host_short_def)
  have full: "fst (Write sample_errno host_short_reads sample_raw [1, 2] []) = Returned 2 None"
    by (simp add: Write_def transfer_def sample_raw_def sample_errno_def host_short_reads_def
        C_int_len_def)
  from short_transfer_is_success
         [where fromRawErrno = sample_errno and x = host_short_reads and dev = sample_raw
            and b = "[1, 2]" and r = "0x81" and calls = "[]", THEN conjunct1, THEN mp, OF r]
  have rd: "fst (Read sample_errno host_short_reads sample_raw [1, 2] []) = Returned 1 None"
    by (simp add: host_short_reads_def)
  from short_transfer_is_success
         [where fromRawErrno = sample_errno and x = host_short and dev = sample_raw
            and b = "[1, 2]" and w = "0x01" and calls = "[]", THEN conjunct2, THEN mp, OF w]
  have wr: "fst (Write sample_errno host_short sample_raw [1, 2] []) = Returned 1 None"
    by (simp add: host_short_def)
  from r w full rd wr show ?thesis by blast
qed

text \<open>
  C7. The claim: a \<^verbatim>\<open>Read\<close> or \<^verbatim>\<open>Write\<close> with an empty buffer is rejected with an error
  and does not crash. The code, for a \<^verbatim>\<open>Write\<close> of the empty buffer on an open device:
  the call does not return, it panics on \<^verbatim>\<open>&b[0]\<close>.
\<close>

theorem Write_empty_buffer_panics:
  "Write sample_errno host_short sample_raw [] [] = (Panicked IndexOutOfRange, [])"
  by (simp add: Write_def transfer_def sample_raw_def)

text \<open>
  C7, as amended. A \<^verbatim>\<open>Read\<close> or \<^verbatim>\<open>Write\<close> with an empty buffer makes no call into the
  host stack and returns no error: it stops in a run-time panic.
\<close>

theorem empty_buffer_panics_before_transfer:
  "is_panic (fst (Read fromRawErrno x dev [] calls))
   \<and> snd (Read fromRawErrno x dev [] calls) = calls
   \<and> is_panic (fst (Write fromRawErrno x dev [] calls))
   \<and> snd (Write fromRawErrno x dev [] calls) = calls"
  by (simp add: Read_def Write_def transfer_def split: option.splits)

text \<open>
  C10. A \<^verbatim>\<open>Read\<close> or \<^verbatim>\<open>Write\<close> that returns an error returns the count 0 with it,
  whatever libusb stored in \<^verbatim>\<open>transferred\<close>.
\<close>

theorem failed_transfer_returns_zero:
  "fst (Read fromRawErrno x dev b calls) = Returned n (Some err)
     \<or> fst (Write fromRawErrno x dev b calls) = Returned n (Some err) \<Longrightarrow> n = 0"
  by (auto simp: Read_def Write_def transfer_def split: option.splits if_splits)

theorem failed_transfer_returns_zero_witness:
  "(fst (Read sample_errno host_io_error sample_raw [1, 2] []) = Returned 0 (Some (RawError (- 1)))
    \<or> fst (Write sample_errno host_io_error sample_raw [1, 2] []) = Returned 0 (Some (RawError (- 1))))
   \<and> snd (host_io_error (handle sample_raw) 0x81 [1, 2] (C_int_len [1, 2])) = 5
   \<and> fst (Read sample_errno host_io_error sample_raw [1, 2] []) \<noteq> Returned 5 (Some (RawError (- 1)))"
proof -
  have h: "fst (Read sample_errno host_io_error sample_raw [1, 2] []) = Returned 0 (Some (RawError (- 1)))
    \<or> fst (Write sample_errno host_io_error sample_raw [1, 2] []) = Returned 0 (Some (RawError (- 1)))"
    by (simp add: Read_def transfer_def sample_raw_def sample_errno_def host_io_error_def)
  have s: "snd (host_io_error (handle sample_raw) 0x81 [1, 2] (C_int_len [1, 2])) = 5"
    by (simp add: host_io_error_def)
  have "fst (Read sample_errno host_io_error sample_raw [1, 2] []) \<noteq> Returned 5 (Some (RawError (- 1)))"
    using failed_transfer_returns_zero
            [of sample_errno host_io_error sample_raw "[1, 2]" "[]" 5 "RawError (- 1)"]
    by auto
  with failed_transfer_returns_zero [OF h] h s show ?thesis by blast
qed

end
